theory Spec2Isabelle
  imports Main "HOL-Library.Sublist" "HOL-Library.Word"
begin

section \<open>Go values used by the controller\<close>

text \<open>
  A Go string is a sequence of bytes, so it is a \<^typ>\<open>string\<close> here. A Go \<open>error\<close> is
  an interface value that is either \<open>nil\<close> or carries a text, read with \<open>err.Error()\<close>:
  a nil error is \<open>None\<close>.
\<close>

datatype error = GoError (Error: string)

text \<open>A run-time panic of the Go program ends the handler without a result.\<close>

datatype panic = TypeAssertionPanic | NilPointerDereference

subsection \<open>fmt.Sprintf\<close>

text \<open>
  \<open>fmt.Sprintf\<close> for string operands: the verb \<open>%s\<close> is replaced by the next operand,
  \<open>%%\<close> is a percent sign, every other byte is copied. A verb with no operand left prints
  \<open>%!s(MISSING)\<close>, operands left over are reported at the end as \<open>%!(EXTRA ...)\<close>.
  Other verbs do not occur in the program and are copied as they are.
\<close>

fun extra_operands :: "string list \<Rightarrow> string" where
  "extra_operands [] = []"
| "extra_operands [a] = ''string='' @ a"
| "extra_operands (a # b # as) = ''string='' @ a @ '', '' @ extra_operands (b # as)"

fun Sprintf :: "string \<Rightarrow> string list \<Rightarrow> string" where
  "Sprintf [] [] = []"
| "Sprintf [] (a # as) = ''%!(EXTRA '' @ extra_operands (a # as) @ '')''"
| "Sprintf (c # fs) as =
     (if c = CHR ''%'' then
        (case fs of
           [] \<Rightarrow> ''%!(NOVERB)'' @ Sprintf [] as
         | v # fs' \<Rightarrow>
             if v = CHR ''s'' then
               (case as of
                  [] \<Rightarrow> ''%!s(MISSING)'' @ Sprintf fs' []
                | a # as' \<Rightarrow> a @ Sprintf fs' as')
             else if v = CHR ''%'' then CHR ''%'' # Sprintf fs' as
             else c # v # Sprintf fs' as)
      else c # Sprintf fs as)"

subsection \<open>regexp.MatchString\<close>

text \<open>
  The fragment of Go's regular expressions that the program uses: literal bytes, \<open>.\<close>
  (any character but a newline) and the postfix star. A compiled expression is a
  sequence of pieces. Any other metacharacter is outside the fragment and is reported
  as a compile error; a star with nothing to repeat is a compile error in Go as well.
  Matching is on bytes: the literals of the program's pattern are ASCII, so a match on
  bytes and a match on UTF-8 characters find the same occurrences.
\<close>

datatype atom = Lit char | AnyCharNotNL

datatype piece = One atom | Star atom

definition is_meta :: "char \<Rightarrow> bool" where
  "is_meta c = (c \<in> set (CHR 0x5C # ''.+*?()|[]{}^$''))"

fun compile :: "string \<Rightarrow> error + piece list" where
  "compile [] = Inr []"
| "compile (c # cs) =
     (if is_meta c \<and> c \<noteq> CHR ''.'' then Inl (GoError ''error parsing regexp'')
      else
        let a = (if c = CHR ''.'' then AnyCharNotNL else Lit c) in
        (case cs of
           [] \<Rightarrow> Inr [One a]
         | d # ds \<Rightarrow>
             if d = CHR ''*'' then map_sum id ((#) (Star a)) (compile ds)
             else map_sum id ((#) (One a)) (compile cs)))"

fun atom_ok :: "atom \<Rightarrow> char \<Rightarrow> bool" where
  "atom_ok (Lit l) c = (c = l)"
| "atom_ok AnyCharNotNL c = (c \<noteq> CHR 0x0A)"

text \<open>\<open>match_here re s\<close>: some prefix of \<open>s\<close> matches the whole of \<open>re\<close>.\<close>

fun match_here :: "piece list \<Rightarrow> string \<Rightarrow> bool" where
  "match_here [] s = True"
| "match_here (One a # ps) [] = False"
| "match_here (One a # ps) (c # cs) = (atom_ok a c \<and> match_here ps cs)"
| "match_here (Star a # ps) [] = match_here ps []"
| "match_here (Star a # ps) (c # cs) =
     (match_here ps (c # cs) \<or> (atom_ok a c \<and> match_here (Star a # ps) cs))"

text \<open>
  \<open>MatchString\<close> reports whether the string contains any match of the pattern: the
  expression is not anchored, a match may start at every position.
\<close>

fun match_anywhere :: "piece list \<Rightarrow> string \<Rightarrow> bool" where
  "match_anywhere re [] = match_here re []"
| "match_anywhere re (c # cs) = (match_here re (c # cs) \<or> match_anywhere re cs)"

definition MatchString :: "string \<Rightarrow> string \<Rightarrow> bool \<times> error option" where
  "MatchString pattern s =
     (case compile pattern of
        Inl err \<Rightarrow> (False, Some err)
      | Inr re \<Rightarrow> (match_anywhere re s, None))"

section \<open>Kubernetes API objects\<close>

text \<open>
  The structs of \<open>k8s.io/api/core/v1\<close> and \<open>k8s.io/apimachinery\<close> that the controller
  reads or builds, with the fields that matter here. A field that a Go struct literal
  does not mention has its zero value: the empty string, the nil map, the nil slice.
\<close>

record TypeMeta =
  Kind :: string
  APIVersion :: string

record ObjectMeta =
  Name :: string
  Namespace :: string
  Labels :: "string \<rightharpoonup> string"
  Annotations :: "string \<rightharpoonup> string"

record NamespaceSpec =
  Finalizers :: "string list"

record NamespaceStatus =
  Phase :: string

record v1_Namespace =
  ns_TypeMeta :: TypeMeta
  ns_ObjectMeta :: ObjectMeta
  ns_Spec :: NamespaceSpec
  ns_Status :: NamespaceStatus

text \<open>
  \<open>resource.Quantity\<close>: \<open>NewQuantity\<close> stores an \<open>int64\<close> amount at scale 0 together
  with the format it is printed in.
\<close>

datatype Format = DecimalExponent | BinarySI | DecimalSI

record Quantity =
  amount :: "64 word"
  Format :: Format

definition NewQuantity :: "64 word \<Rightarrow> Format \<Rightarrow> Quantity" where
  "NewQuantity v f = \<lparr>amount = v, Format = f\<rparr>"

type_synonym ResourceList = "string \<rightharpoonup> Quantity"

datatype LimitType = LimitTypePod | LimitTypeContainer | LimitTypePersistentVolumeClaim

record LimitRangeItem =
  Type :: LimitType
  Max_limit :: ResourceList
  Min_limit :: ResourceList
  Default :: ResourceList
  DefaultRequest :: ResourceList
  MaxLimitRequestRatio :: ResourceList

record LimitRangeSpec =
  Limits :: "LimitRangeItem list"

record v1_LimitRange =
  lr_TypeMeta :: TypeMeta
  lr_ObjectMeta :: ObjectMeta
  lr_Spec :: LimitRangeSpec

record ResourceQuotaSpec =
  Hard :: ResourceList
  Scopes :: "string list"

record v1_ResourceQuota =
  rq_TypeMeta :: TypeMeta
  rq_ObjectMeta :: ObjectMeta
  rq_Spec :: ResourceQuotaSpec

text \<open>
  The argument of an event handler has the static type \<open>interface{}\<close>. Its dynamic value
  is nil, a pointer to a namespace (which may itself be a nil pointer), or a value of some
  other type, given here by the name of that type.
\<close>

datatype obj = NilInterface | NamespacePtr "v1_Namespace option" | OtherObject string

section \<open>The cluster and the log\<close>

text \<open>
  What the handler does to the outside is a trace: every request sent to the API server
  and every line given to the logger, in the order they happen. The API server is a
  parameter: its state has the type \<open>'c\<close>, and a \<open>Clientset\<close> answers a creation request
  from that state with the created object and an error, one of them nil.
\<close>

datatype request =
  CreateLimitRange string v1_LimitRange
| CreateResourceQuota string v1_ResourceQuota

datatype event = ApiCall request | LogLine string

record 'c world =
  cluster :: 'c
  trace :: "event list"

record 'c Clientset =
  LimitRanges_Create ::
    "string \<Rightarrow> v1_LimitRange \<Rightarrow> 'c \<Rightarrow> (v1_LimitRange option \<times> error option) \<times> 'c"
  ResourceQuotas_Create ::
    "string \<Rightarrow> v1_ResourceQuota \<Rightarrow> 'c \<Rightarrow> (v1_ResourceQuota option \<times> error option) \<times> 'c"

text \<open>\<open>kclient.CoreV1().LimitRanges(ns).Create(body)\<close>\<close>

definition CoreV1_LimitRanges_Create ::
  "'c Clientset \<Rightarrow> string \<Rightarrow> v1_LimitRange \<Rightarrow> 'c world
     \<Rightarrow> (v1_LimitRange option \<times> error option) \<times> 'c world" where
  "CoreV1_LimitRanges_Create k ns body w =
     (let (r, c') = LimitRanges_Create k ns body (cluster w)
      in (r, \<lparr>cluster = c', trace = trace w @ [ApiCall (CreateLimitRange ns body)]\<rparr>))"

text \<open>\<open>kclient.CoreV1().ResourceQuotas(ns).Create(body)\<close>\<close>

definition CoreV1_ResourceQuotas_Create ::
  "'c Clientset \<Rightarrow> string \<Rightarrow> v1_ResourceQuota \<Rightarrow> 'c world
     \<Rightarrow> (v1_ResourceQuota option \<times> error option) \<times> 'c world" where
  "CoreV1_ResourceQuotas_Create k ns body w =
     (let (r, c') = ResourceQuotas_Create k ns body (cluster w)
      in (r, \<lparr>cluster = c', trace = trace w @ [ApiCall (CreateResourceQuota ns body)]\<rparr>))"

text \<open>
  \<open>log.Println\<close> of one string: one more line in the log. The line is the string given
  to the logger, without the date and time that the logger puts in front of it.
\<close>

definition Println :: "string \<Rightarrow> 'c world \<Rightarrow> 'c world" where
  "Println s w = w\<lparr>trace := trace w @ [LogLine s]\<rparr>"

section \<open>The informer\<close>

text \<open>
  \<open>time.Duration\<close> is an \<open>int64\<close> count of nanoseconds.
\<close>

type_synonym Duration = "64 word"

definition Nanosecond :: Duration where "Nanosecond = 1"
definition Microsecond :: Duration where "Microsecond = 1000 * Nanosecond"
definition Millisecond :: Duration where "Millisecond = 1000 * Microsecond"
definition Second :: Duration where "Second = 1000 * Millisecond"
definition Minute :: Duration where "Minute = 60 * Second"

text \<open>
  A shared index informer of \<open>k8s.io/client-go/tools/cache\<close>, as far as the controller
  configures it: the list and watch functions, the type of the objects, the resync
  period, the indexers and the registered event handlers.

  Function values are named, not embedded. The list and the watch function are the two
  closures over the clientset; the only function of the program that fits a handler of one
  object is the method \<open>createCustomRules\<close> of the controller, a method value whose
  receiver is a pointer to the controller, so a call sees the fields the controller has at
  the time of the call. The program has no function of two objects that an update handler
  could be, so that field holds a function of the model itself.
\<close>

datatype list_closure = Namespaces_List
datatype watch_closure = Namespaces_Watch

record ListWatch =
  ListFunc :: "list_closure option"
  WatchFunc :: "watch_closure option"

datatype method_value = createCustomRules_method

record 'c ResourceEventHandlerFuncs =
  AddFunc :: "method_value option"
  UpdateFunc :: "(obj \<Rightarrow> obj \<Rightarrow> 'c world \<Rightarrow> panic + 'c world) option"
  DeleteFunc :: "method_value option"

datatype IndexFunc = MetaNamespaceIndexFunc

definition NamespaceIndex :: string where
  "NamespaceIndex = ''namespace''"

record 'c SharedIndexInformer =
  listerWatcher :: ListWatch
  objectType :: string
  resyncPeriod :: Duration
  indexers :: "string \<rightharpoonup> IndexFunc"
  handlers :: "'c ResourceEventHandlerFuncs list"

definition NewSharedIndexInformer ::
  "ListWatch \<Rightarrow> string \<Rightarrow> Duration \<Rightarrow> (string \<rightharpoonup> IndexFunc) \<Rightarrow> 'c SharedIndexInformer" where
  "NewSharedIndexInformer lw exampleObject defaultEventHandlerResyncPeriod ixs =
     \<lparr>listerWatcher = lw, objectType = exampleObject,
      resyncPeriod = defaultEventHandlerResyncPeriod, indexers = ixs, handlers = []\<rparr>"

definition AddEventHandler ::
  "'c ResourceEventHandlerFuncs \<Rightarrow> 'c SharedIndexInformer \<Rightarrow> 'c SharedIndexInformer" where
  "AddEventHandler handler s = s\<lparr>handlers := handlers s @ [handler]\<rparr>"

section \<open>The controller\<close>

record 'c NamespaceController =
  namespaceInformer :: "'c SharedIndexInformer"
  kclient :: "'c Clientset"

text \<open>
  The receiver's \<open>kclient\<close> is the clientset given to \<open>NewNamespaceController\<close>; it is
  taken to be a live clientset, not a nil pointer.

  The method \<open>Run\<close> starts the informer in a goroutine of its own and blocks on the stop
  channel. It has no sequential content and is not part of this development, which
  follows one notification through the handler.
\<close>

definition NewNamespaceController :: "'c Clientset \<Rightarrow> 'c NamespaceController" where
  "NewNamespaceController kc =
     (let namespaceInformer =
            NewSharedIndexInformer
              \<lparr>ListFunc = Some Namespaces_List, WatchFunc = Some Namespaces_Watch\<rparr>
              ''*v1.Namespace''
              (3 * Minute)
              [NamespaceIndex \<mapsto> MetaNamespaceIndexFunc];
          namespaceInformer =
            AddEventHandler
              \<lparr>AddFunc = Some createCustomRules_method, UpdateFunc = None, DeleteFunc = None\<rparr>
              namespaceInformer
      in \<lparr>namespaceInformer = namespaceInformer, kclient = kc\<rparr>)"

text \<open>The two struct literals of \<open>createCustomRules\<close>.\<close>

definition limit_literal :: "string \<Rightarrow> string \<Rightarrow> v1_LimitRange" where
  "limit_literal limitRangeName namespaceName =
     \<lparr>lr_TypeMeta = \<lparr>Kind = ''LimitRange'', APIVersion = ''v1''\<rparr>,
      lr_ObjectMeta =
        \<lparr>Name = limitRangeName, Namespace = namespaceName,
         Labels = Map.empty, Annotations = Map.empty\<rparr>,
      lr_Spec =
        \<lparr>Limits =
           [\<lparr>Type = LimitTypeContainer,
             Max_limit = Map.empty,
             Min_limit = Map.empty,
             Default = [''memory'' \<mapsto> NewQuantity (128 * 1024 * 1024) BinarySI],
             DefaultRequest = [''memory'' \<mapsto> NewQuantity (128 * 1024 * 1024) BinarySI],
             MaxLimitRequestRatio = Map.empty\<rparr>]\<rparr>\<rparr>"

definition quota_literal :: "string \<Rightarrow> string \<Rightarrow> v1_ResourceQuota" where
  "quota_literal resourceQuotaName namespaceName =
     \<lparr>rq_TypeMeta = \<lparr>Kind = ''ResourceQuota'', APIVersion = ''v1''\<rparr>,
      rq_ObjectMeta =
        \<lparr>Name = resourceQuotaName, Namespace = namespaceName,
         Labels = Map.empty, Annotations = Map.empty\<rparr>,
      rq_Spec =
        \<lparr>Hard =
           [''services.loadbalancers'' \<mapsto> NewQuantity 0 BinarySI,
            ''services.nodeports'' \<mapsto> NewQuantity 0 BinarySI],
         Scopes = []\<rparr>\<rparr>"

text \<open>
  The handler of namespace additions. The type assertion \<open>obj.(*v1.Namespace)\<close> has the
  one-result form, so it panics on a value of another dynamic type and on the nil
  interface; reading \<open>Name\<close> through a nil pointer panics as well. After that the
  handler cannot fail: the error of each creation call goes to the log and nowhere else.
\<close>

definition createCustomRules ::
  "'c NamespaceController \<Rightarrow> obj \<Rightarrow> 'c world \<Rightarrow> panic + 'c world" where
  "createCustomRules c ob w =
     (case ob of
        NamespacePtr p \<Rightarrow>
          (case p of
             None \<Rightarrow> Inl NilPointerDereference
           | Some namespaceObj \<Rightarrow>
               let namespaceName = Name (ns_ObjectMeta namespaceObj);
                   (adminNamespaces, _) = MatchString ''kube-.*'' namespaceName;
                   limitRangeName = Sprintf ''lr-auto-%s'' [namespaceName]
               in
                 if adminNamespaces \<noteq> True then
                   let limit = limit_literal limitRangeName namespaceName;
                       ((_, err), w) =
                          CoreV1_LimitRanges_Create (kclient c) namespaceName limit w;
                       w = (case err of
                              Some e \<Rightarrow>
                                Println (Sprintf ''Failed to create limitRange: %s'' [Error e]) w
                            | None \<Rightarrow>
                                Println (Sprintf ''limitRange for Namespace: %s created''
                                           [namespaceName]) w);
                       resourceQuotaName = Sprintf ''rq-auto-%s'' [namespaceName];
                       quota = quota_literal resourceQuotaName namespaceName;
                       ((_, err), w) =
                          CoreV1_ResourceQuotas_Create (kclient c) namespaceName quota w;
                       w = (case err of
                              Some e \<Rightarrow>
                                Println (Sprintf ''Failed to create ResourceQuotas: %s''
                                           [Error e]) w
                            | None \<Rightarrow>
                                Println (Sprintf ''ResourceQuotas for Namespace: %s created''
                                           [namespaceName]) w)
                   in Inr w
                 else
                   Inr (Println (Sprintf ''Skip admin namespace: %s'' [namespaceName]) w))
      | _ \<Rightarrow> Inl TypeAssertionPanic)"

text \<open>
  How the informer delivers a notification to a registered
  \<open>ResourceEventHandlerFuncs\<close>: \<open>OnAdd\<close>, \<open>OnUpdate\<close> and \<open>OnDelete\<close> call the function
  of their field when it is not nil, and do nothing otherwise. The handlers run one
  after the other; a panic of one ends the delivery.
\<close>

datatype notification =
  addNotification obj
| updateNotification obj obj
| deleteNotification obj

definition call_method ::
  "'c NamespaceController \<Rightarrow> method_value \<Rightarrow> obj \<Rightarrow> 'c world \<Rightarrow> panic + 'c world" where
  "call_method c m ob w = (case m of createCustomRules_method \<Rightarrow> createCustomRules c ob w)"

definition OnAdd ::
  "'c NamespaceController \<Rightarrow> 'c ResourceEventHandlerFuncs \<Rightarrow> obj \<Rightarrow> 'c world
     \<Rightarrow> panic + 'c world" where
  "OnAdd c r ob w = (case AddFunc r of None \<Rightarrow> Inr w | Some f \<Rightarrow> call_method c f ob w)"

definition OnUpdate ::
  "'c ResourceEventHandlerFuncs \<Rightarrow> obj \<Rightarrow> obj \<Rightarrow> 'c world \<Rightarrow> panic + 'c world" where
  "OnUpdate r oldObj newObj w =
     (case UpdateFunc r of None \<Rightarrow> Inr w | Some f \<Rightarrow> f oldObj newObj w)"

definition OnDelete ::
  "'c NamespaceController \<Rightarrow> 'c ResourceEventHandlerFuncs \<Rightarrow> obj \<Rightarrow> 'c world
     \<Rightarrow> panic + 'c world" where
  "OnDelete c r ob w = (case DeleteFunc r of None \<Rightarrow> Inr w | Some f \<Rightarrow> call_method c f ob w)"

fun distribute ::
  "'c NamespaceController \<Rightarrow> 'c ResourceEventHandlerFuncs list \<Rightarrow> notification \<Rightarrow> 'c world
     \<Rightarrow> panic + 'c world" where
  "distribute c [] n w = Inr w"
| "distribute c (r # rs) n w =
     (case (case n of
              addNotification ob \<Rightarrow> OnAdd c r ob w
            | updateNotification oldObj newObj \<Rightarrow> OnUpdate r oldObj newObj w
            | deleteNotification ob \<Rightarrow> OnDelete c r ob w) of
        Inl p \<Rightarrow> Inl p
      | Inr w' \<Rightarrow> distribute c rs n w')"

definition deliver ::
  "'c NamespaceController \<Rightarrow> notification \<Rightarrow> 'c world \<Rightarrow> panic + 'c world" where
  "deliver c n w = distribute c (handlers (namespaceInformer c)) n w"

text \<open>The requests and the log lines of a trace, each in order.\<close>

fun calls :: "event list \<Rightarrow> request list" where
  "calls [] = []"
| "calls (ApiCall r # es) = r # calls es"
| "calls (LogLine s # es) = calls es"

fun logs :: "event list \<Rightarrow> string list" where
  "logs [] = []"
| "logs (ApiCall r # es) = logs es"
| "logs (LogLine s # es) = s # logs es"

text \<open>The compiled form of the pattern of the program.\<close>

definition kube_re :: "piece list" where
  "kube_re =
     [One (Lit CHR ''k''), One (Lit CHR ''u''), One (Lit CHR ''b''), One (Lit CHR ''e''),
      One (Lit CHR ''-''), Star AnyCharNotNL]"

subsection \<open>Concrete inputs\<close>

text \<open>
  A namespace as the API server delivers it, two clientsets over a cluster without state
  (one accepts every creation, one refuses every creation with the error \<open>boom\<close>) and
  the world before anything has happened.
\<close>

definition namespace_named :: "string \<Rightarrow> v1_Namespace" where
  "namespace_named n =
     \<lparr>ns_TypeMeta = \<lparr>Kind = ''Namespace'', APIVersion = ''v1''\<rparr>,
      ns_ObjectMeta = \<lparr>Name = n, Namespace = [], Labels = Map.empty, Annotations = Map.empty\<rparr>,
      ns_Spec = \<lparr>Finalizers = [''kubernetes'']\<rparr>,
      ns_Status = \<lparr>Phase = ''Active''\<rparr>\<rparr>"

text \<open>A second namespace object: the same name can come with other labels, annotations, finalizers
  and phase.\<close>

definition relabelled_namespace :: "string \<Rightarrow> v1_Namespace" where
  "relabelled_namespace n =
     \<lparr>ns_TypeMeta = \<lparr>Kind = ''Namespace'', APIVersion = ''v1''\<rparr>,
      ns_ObjectMeta =
        \<lparr>Name = n, Namespace = [], Labels = [''env'' \<mapsto> ''prod''],
         Annotations = [''owner'' \<mapsto> ''ops'']\<rparr>,
      ns_Spec = \<lparr>Finalizers = []\<rparr>,
      ns_Status = \<lparr>Phase = ''Terminating''\<rparr>\<rparr>"

definition accepting_client :: "unit Clientset" where
  "accepting_client =
     \<lparr>LimitRanges_Create = (\<lambda>ns body c. ((Some body, None), c)),
      ResourceQuotas_Create = (\<lambda>ns body c. ((Some body, None), c))\<rparr>"

definition refusing_client :: "unit Clientset" where
  "refusing_client =
     \<lparr>LimitRanges_Create = (\<lambda>ns body c. ((None, Some (GoError ''boom'')), c)),
      ResourceQuotas_Create = (\<lambda>ns body c. ((None, Some (GoError ''boom'')), c))\<rparr>"

definition empty_world :: "unit world" where
  "empty_world = \<lparr>cluster = (), trace = []\<rparr>"

section \<open>What the pattern matches\<close>

lemma compile_kube: "compile ''kube-.*'' = Inr kube_re"
  by (simp add: is_meta_def kube_re_def)

lemma match_here_Star_last: "match_here [Star a] s"
  by (cases s) simp_all

lemma match_here_Lit:
  "match_here (One (Lit l) # ps) s \<longleftrightarrow> (\<exists>cs. s = l # cs \<and> match_here ps cs)"
  by (cases s) auto

lemma match_here_kube: "match_here kube_re s \<longleftrightarrow> prefix ''kube-'' s"
  by (auto simp: kube_re_def match_here_Lit match_here_Star_last prefix_def)

text \<open>A match anywhere is a match at the start of some suffix.\<close>

lemma match_anywhere_suffix:
  "match_anywhere re s \<longleftrightarrow> (\<exists>ps ss. s = ps @ ss \<and> match_here re ss)"
proof (induction s)
  case Nil
  then show ?case by simp
next
  case (Cons c cs)
  show ?case
  proof
    assume "match_anywhere re (c # cs)"
    then consider "match_here re (c # cs)" | "match_anywhere re cs" by auto
    then show "\<exists>ps ss. c # cs = ps @ ss \<and> match_here re ss"
    proof cases
      case 1
      then have "c # cs = [] @ (c # cs) \<and> match_here re (c # cs)" by simp
      then show ?thesis by blast
    next
      case 2
      with Cons.IH obtain ps ss where "cs = ps @ ss" "match_here re ss" by blast
      then have "c # cs = (c # ps) @ ss \<and> match_here re ss" by simp
      then show ?thesis by blast
    qed
  next
    assume "\<exists>ps ss. c # cs = ps @ ss \<and> match_here re ss"
    then obtain ps ss where eq: "c # cs = ps @ ss" and m: "match_here re ss" by blast
    show "match_anywhere re (c # cs)"
    proof (cases ps)
      case Nil
      with eq have "ss = c # cs" by simp
      with m show ?thesis by simp
    next
      case (Cons p ps')
      with eq have "cs = ps' @ ss" by simp
      with m Cons.IH have "match_anywhere re cs" by blast
      then show ?thesis by simp
    qed
  qed
qed

lemma match_anywhere_kube: "match_anywhere kube_re s \<longleftrightarrow> sublist ''kube-'' s"
  unfolding match_anywhere_suffix match_here_kube sublist_def prefix_def by blast

text \<open>
  The pattern compiles, so the error is nil, and it matches exactly the strings that
  contain \<open>kube-\<close> somewhere.
\<close>

lemma MatchString_kube: "MatchString ''kube-.*'' s = (sublist ''kube-'' s, None)"
  unfolding MatchString_def compile_kube by (simp add: match_anywhere_kube)

lemma fst_MatchString_kube: "fst (MatchString ''kube-.*'' s) \<longleftrightarrow> sublist ''kube-'' s"
  by (simp add: MatchString_kube)

lemma prefix_kube_matches: "prefix ''kube-'' s \<Longrightarrow> fst (MatchString ''kube-.*'' s)"
  by (simp add: MatchString_kube)

section \<open>The formatted strings of the program\<close>

lemma Sprintf_lr: "Sprintf ''lr-auto-%s'' [n] = ''lr-auto-'' @ n"
  by simp

lemma Sprintf_rq: "Sprintf ''rq-auto-%s'' [n] = ''rq-auto-'' @ n"
  by simp

lemma Sprintf_skip: "Sprintf ''Skip admin namespace: %s'' [n] = ''Skip admin namespace: '' @ n"
  by simp

lemma Sprintf_lr_fail:
  "Sprintf ''Failed to create limitRange: %s'' [e] = ''Failed to create limitRange: '' @ e"
  by simp

lemma Sprintf_rq_fail:
  "Sprintf ''Failed to create ResourceQuotas: %s'' [e] = ''Failed to create ResourceQuotas: '' @ e"
  by simp

lemma Sprintf_lr_ok:
  "Sprintf ''limitRange for Namespace: %s created'' [n] =
     ''limitRange for Namespace: '' @ n @ '' created''"
  by simp

lemma Sprintf_rq_ok:
  "Sprintf ''ResourceQuotas for Namespace: %s created'' [n] =
     ''ResourceQuotas for Namespace: '' @ n @ '' created''"
  by simp

lemmas Sprintf_program =
  Sprintf_lr Sprintf_rq Sprintf_skip Sprintf_lr_fail Sprintf_rq_fail Sprintf_lr_ok Sprintf_rq_ok

section \<open>The two runs of the handler\<close>

lemma calls_append: "calls (xs @ ys) = calls xs @ calls ys"
  by (induction xs rule: calls.induct) simp_all

lemma logs_append: "logs (xs @ ys) = logs xs @ logs ys"
  by (induction xs rule: logs.induct) simp_all

text \<open>A name that contains \<open>kube-\<close>: one line in the log, nothing else.\<close>

lemma run_admin:
  assumes "sublist ''kube-'' (Name (ns_ObjectMeta ns))"
  shows "createCustomRules c (NamespacePtr (Some ns)) w =
           Inr (w\<lparr>trace := trace w @
                  [LogLine (''Skip admin namespace: '' @ Name (ns_ObjectMeta ns))]\<rparr>)"
  using assms unfolding createCustomRules_def MatchString_kube Sprintf_program
  by (simp add: Println_def)

text \<open>
  Any other name: the LimitRange request, its log line, the ResourceQuota request, its
  log line, whatever the API server answers to each.
\<close>

lemma run_nonadmin:
  assumes "\<not> sublist ''kube-'' n" and "Name (ns_ObjectMeta ns) = n"
    and "LimitRanges_Create (kclient c) n (limit_literal (''lr-auto-'' @ n) n) (cluster w) =
           ((r1, e1), c1)"
    and "ResourceQuotas_Create (kclient c) n (quota_literal (''rq-auto-'' @ n) n) c1 =
           ((r2, e2), c2)"
  shows "createCustomRules c (NamespacePtr (Some ns)) w =
           Inr \<lparr>cluster = c2,
                trace = trace w @
                  [ApiCall (CreateLimitRange n (limit_literal (''lr-auto-'' @ n) n)),
                   LogLine (case e1 of
                              Some e \<Rightarrow> ''Failed to create limitRange: '' @ Error e
                            | None \<Rightarrow> ''limitRange for Namespace: '' @ n @ '' created''),
                   ApiCall (CreateResourceQuota n (quota_literal (''rq-auto-'' @ n) n)),
                   LogLine (case e2 of
                              Some e \<Rightarrow> ''Failed to create ResourceQuotas: '' @ Error e
                            | None \<Rightarrow> ''ResourceQuotas for Namespace: '' @ n @ '' created'')]\<rparr>"
  using assms unfolding createCustomRules_def MatchString_kube Sprintf_program
  by (simp add: Println_def CoreV1_LimitRanges_Create_def CoreV1_ResourceQuotas_Create_def
        split: option.splits)

lemma memory_amount: "sint (128 * 1024 * 1024 :: 64 word) = 134217728"
  by simp

lemma three_minutes: "sint (3 * Minute) = 180000000000"
  by (simp add: Minute_def Second_def Millisecond_def Microsecond_def Nanosecond_def)

text \<open>
  The scenario of the name \<open>kubelet-custom\<close>: it does not contain \<open>kube-\<close>, and both
  requests are sent.
\<close>

lemma kubelet_custom_proceeds:
  "calls (trace (projr (createCustomRules (NewNamespaceController accepting_client)
     (NamespacePtr (Some (namespace_named ''kubelet-custom''))) empty_world))) =
   [CreateLimitRange ''kubelet-custom''
      (limit_literal ''lr-auto-kubelet-custom'' ''kubelet-custom''),
    CreateResourceQuota ''kubelet-custom''
      (quota_literal ''rq-auto-kubelet-custom'' ''kubelet-custom'')]"
proof -
  have a: "\<not> sublist ''kube-'' ''kubelet-custom''"
    by (simp add: sublist_Cons_right)
  have n: "Name (ns_ObjectMeta (namespace_named ''kubelet-custom'')) = ''kubelet-custom''"
    by (simp add: namespace_named_def)
  show ?thesis
    by (subst run_nonadmin [OF a n,
          where ?r1.0 = "Some (limit_literal ''lr-auto-kubelet-custom'' ''kubelet-custom'')"
            and ?e1.0 = None and ?c1.0 = "()"
            and ?r2.0 = "Some (quota_literal ''rq-auto-kubelet-custom'' ''kubelet-custom'')"
            and ?e2.0 = None and ?c2.0 = "()"])
       (simp_all add: NewNamespaceController_def accepting_client_def empty_world_def)
qed

text \<open>Both requests are sent, whatever the answers are.\<close>

lemma run_nonadmin_calls:
  assumes "\<not> sublist ''kube-'' n" and "Name (ns_ObjectMeta ns) = n"
  shows "\<exists>w'. createCustomRules c (NamespacePtr (Some ns)) w = Inr w' \<and>
           calls (trace w') = calls (trace w) @
             [CreateLimitRange n (limit_literal (''lr-auto-'' @ n) n),
              CreateResourceQuota n (quota_literal (''rq-auto-'' @ n) n)]"
proof -
  obtain r1 e1 c1 where lr:
    "LimitRanges_Create (kclient c) n (limit_literal (''lr-auto-'' @ n) n) (cluster w) = ((r1, e1), c1)"
    by (metis surj_pair)
  obtain r2 e2 c2 where rq:
    "ResourceQuotas_Create (kclient c) n (quota_literal (''rq-auto-'' @ n) n) c1 = ((r2, e2), c2)"
    by (metis surj_pair)
  show ?thesis
    by (simp add: run_nonadmin [OF assms lr rq] calls_append)
qed

text \<open>The fields of the two request bodies.\<close>

lemma quota_dom: "dom (Hard (rq_Spec (quota_literal rn n))) = {''services.loadbalancers'', ''services.nodeports''}"
  unfolding quota_literal_def by (simp add: insert_commute)

lemma quota_body:
  "Kind (rq_TypeMeta (quota_literal rn n)) = ''ResourceQuota'' \<and>
        Name (rq_ObjectMeta (quota_literal rn n)) = rn \<and>
        Namespace (rq_ObjectMeta (quota_literal rn n)) = n \<and>
        Hard (rq_Spec (quota_literal rn n)) ''services.loadbalancers'' = Some (NewQuantity 0 BinarySI) \<and>
        Hard (rq_Spec (quota_literal rn n)) ''services.nodeports'' = Some (NewQuantity 0 BinarySI) \<and>
        sint (amount (NewQuantity 0 BinarySI)) = 0"
  by (simp add: quota_literal_def NewQuantity_def)


lemma limit_body:
  "Kind (lr_TypeMeta (limit_literal ln n)) = ''LimitRange'' \<and>
   Name (lr_ObjectMeta (limit_literal ln n)) = ln \<and>
   Namespace (lr_ObjectMeta (limit_literal ln n)) = n \<and>
   Limits (lr_Spec (limit_literal ln n)) =
     [\<lparr>Type = LimitTypeContainer, Max_limit = Map.empty, Min_limit = Map.empty,
       Default = [''memory'' \<mapsto> NewQuantity (128 * 1024 * 1024) BinarySI],
       DefaultRequest = [''memory'' \<mapsto> NewQuantity (128 * 1024 * 1024) BinarySI],
       MaxLimitRequestRatio = Map.empty\<rparr>]"
  by (simp add: limit_literal_def)

lemma memory_quantity: "sint (amount (NewQuantity (128 * 1024 * 1024) BinarySI)) = 134217728"
  by (simp add: NewQuantity_def)

text \<open>Facts about the concrete inputs.\<close>

lemma team_a_not_admin: "fst (MatchString ''kube-.*'' ''team-a'') \<noteq> True"
  by (simp add: fst_MatchString_kube sublist_Cons_right)

lemma name_namespace_named: "Name (ns_ObjectMeta (namespace_named n)) = n"
  by (simp add: namespace_named_def)

lemma calls_empty_world: "calls (trace empty_world) = []"
  by (simp add: empty_world_def)

lemma logs_empty_world: "logs (trace empty_world) = []"
  by (simp add: empty_world_def)

lemma trace_empty_world: "trace empty_world = []"
  by (simp add: empty_world_def)

lemma lr_auto_team_a: "''lr-auto-'' @ ''team-a'' = ''lr-auto-team-a''"
  by simp

lemma rq_auto_team_a: "''rq-auto-'' @ ''team-a'' = ''rq-auto-team-a''"
  by simp

lemma refusing_lr:
  "LimitRanges_Create (kclient (NewNamespaceController refusing_client)) n body (cluster empty_world) =
     ((None, Some (GoError ''boom'')), ())"
  by (simp add: NewNamespaceController_def refusing_client_def)

lemma refusing_rq:
  "ResourceQuotas_Create (kclient (NewNamespaceController refusing_client)) n body () =
     ((None, Some (GoError ''boom'')), ())"
  by (simp add: NewNamespaceController_def refusing_client_def)

text \<open>The handler returns for every namespace object, and panics for everything else.\<close>

lemma run_total: "\<exists>w'. createCustomRules c (NamespacePtr (Some ns)) w = Inr w'"
proof (cases "sublist ''kube-'' (Name (ns_ObjectMeta ns))")
  case True
  from run_admin [OF this] show ?thesis by blast
next
  case False
  from run_nonadmin_calls [OF this refl] show ?thesis by blast
qed

lemma run_not_namespace:
  "createCustomRules c NilInterface w = Inl TypeAssertionPanic"
  "createCustomRules c (OtherObject t) w = Inl TypeAssertionPanic"
  "createCustomRules c (NamespacePtr None) w = Inl NilPointerDereference"
  by (simp_all add: createCustomRules_def)

lemma name_relabelled_namespace: "Name (ns_ObjectMeta (relabelled_namespace n)) = n"
  by (simp add: relabelled_namespace_def)

lemma same_name_team_a:
  "Name (ns_ObjectMeta (namespace_named ''team-a'')) =
   Name (ns_ObjectMeta (relabelled_namespace ''team-a''))"
  by (simp add: name_namespace_named name_relabelled_namespace)

lemma relabelled_differs: "namespace_named n \<noteq> relabelled_namespace n"
proof
  assume "namespace_named n = relabelled_namespace n"
  then have "Phase (ns_Status (namespace_named n)) = Phase (ns_Status (relabelled_namespace n))"
    by simp
  then show False by (simp add: namespace_named_def relabelled_namespace_def)
qed

section \<open>The claims\<close>

text \<open>
  Claim C1, at an input where it fails. The claim: for every namespace whose name does not
  begin with \<open>kube-\<close>, the handler attempts one LimitRange creation and then one
  ResourceQuota creation. The name \<open>my-kube-x\<close> does not begin with \<open>kube-\<close>, yet
  the pattern is searched for anywhere in the name and finds \<open>kube-x\<close>: the handler
  takes the namespace for an administrative one, writes the skip line and sends nothing.
\<close>

theorem infix_kube_namespace_skipped:
  "\<not> prefix ''kube-'' ''my-kube-x'' \<and>
   createCustomRules (NewNamespaceController accepting_client)
     (NamespacePtr (Some (namespace_named ''my-kube-x''))) empty_world =
   Inr \<lparr>cluster = (), trace = [LogLine ''Skip admin namespace: my-kube-x'']\<rparr>"
proof -
  have "sublist ''kube-'' (Name (ns_ObjectMeta (namespace_named ''my-kube-x'')))"
    by (simp add: namespace_named_def sublist_Cons_right)
  from run_admin [OF this, of "NewNamespaceController accepting_client" empty_world]
  show ?thesis by (simp add: namespace_named_def empty_world_def)
qed

text \<open>
  Claim C2: for every namespace whose name matches the pattern \<open>kube-.*\<close>, the handler
  sends no creation request, neither for a LimitRange nor for a ResourceQuota, and
  writes exactly one log line, the skip line. The cluster is left as it was.
\<close>

theorem admin_namespace_skipped:
  assumes "fst (MatchString ''kube-.*'' n)" and "Name (ns_ObjectMeta ns) = n"
  shows "\<exists>w'. createCustomRules c (NamespacePtr (Some ns)) w = Inr w' \<and>
           calls (trace w') = calls (trace w) \<and>
           logs (trace w') = logs (trace w) @ [''Skip admin namespace: '' @ n] \<and>
           cluster w' = cluster w"
proof -
  from assms have "sublist ''kube-'' (Name (ns_ObjectMeta ns))"
    by (simp add: fst_MatchString_kube)
  from run_admin [OF this, of c w] assms(2) show ?thesis
    by (simp add: calls_append logs_append)
qed

theorem admin_namespace_skipped_witness:
  "fst (MatchString ''kube-.*'' ''kube-system'') \<and>
   (\<exists>w'. createCustomRules (NewNamespaceController accepting_client)
            (NamespacePtr (Some (namespace_named ''kube-system''))) empty_world = Inr w' \<and>
          calls (trace w') = [] \<and>
          logs (trace w') = [''Skip admin namespace: kube-system''])"
proof -
  have m: "fst (MatchString ''kube-.*'' ''kube-system'')"
    by (simp add: fst_MatchString_kube)
  have n: "Name (ns_ObjectMeta (namespace_named ''kube-system'')) = ''kube-system''"
    by (simp add: namespace_named_def)
  from admin_namespace_skipped [OF m n, of "NewNamespaceController accepting_client" empty_world]
  show ?thesis using m by (simp add: empty_world_def)
qed

text \<open>
  Claim C3: for every namespace name \<open>n\<close> that the handler does not take for an
  administrative one, the LimitRange request that the handler submits has the name
  \<open>lr-auto-n\<close>, is scoped to the namespace \<open>n\<close> and has exactly one limit entry, of
  type Container, whose default and default request are both 134217728 bytes of memory,
  for every \<open>n\<close>.
\<close>

theorem limit_range_request_body:
  assumes "fst (MatchString ''kube-.*'' n) \<noteq> True" and "Name (ns_ObjectMeta ns) = n"
  shows "\<exists>w' lr rq item q.
           createCustomRules c (NamespacePtr (Some ns)) w = Inr w' \<and>
           calls (trace w') = calls (trace w) @ [CreateLimitRange n lr, CreateResourceQuota n rq] \<and>
           Kind (lr_TypeMeta lr) = ''LimitRange'' \<and>
           Name (lr_ObjectMeta lr) = ''lr-auto-'' @ n \<and>
           Namespace (lr_ObjectMeta lr) = n \<and>
           Limits (lr_Spec lr) = [item] \<and>
           Type item = LimitTypeContainer \<and>
           Default item = [''memory'' \<mapsto> q] \<and>
           DefaultRequest item = [''memory'' \<mapsto> q] \<and>
           sint (amount q) = 134217728"
proof -
  from assms(1) have a: "\<not> sublist ''kube-'' n"
    by (simp add: fst_MatchString_kube)
  from run_nonadmin_calls [OF a assms(2), of c w] obtain w' where
    w': "createCustomRules c (NamespacePtr (Some ns)) w = Inr w'"
      "calls (trace w') = calls (trace w) @
             [CreateLimitRange n (limit_literal (''lr-auto-'' @ n) n),
              CreateResourceQuota n (quota_literal (''rq-auto-'' @ n) n)]"
    by blast
  show ?thesis
    apply (rule exI [of _ w'])
    apply (rule exI [of _ "limit_literal (''lr-auto-'' @ n) n"])
    apply (rule exI [of _ "quota_literal (''rq-auto-'' @ n) n"])
    apply (rule exI [of _ "\<lparr>Type = LimitTypeContainer, Max_limit = Map.empty,
             Min_limit = Map.empty,
             Default = [''memory'' \<mapsto> NewQuantity (128 * 1024 * 1024) BinarySI],
             DefaultRequest = [''memory'' \<mapsto> NewQuantity (128 * 1024 * 1024) BinarySI],
             MaxLimitRequestRatio = Map.empty\<rparr>"])
    apply (rule exI [of _ "NewQuantity (128 * 1024 * 1024) BinarySI"])
    using w' limit_body [of "''lr-auto-'' @ n" n] memory_quantity
    by simp
qed

theorem limit_range_request_body_witness:
  "fst (MatchString ''kube-.*'' ''team-a'') \<noteq> True \<and>
   (\<exists>w' lr rq item q.
           createCustomRules (NewNamespaceController accepting_client)
             (NamespacePtr (Some (namespace_named ''team-a''))) empty_world = Inr w' \<and>
           calls (trace w') = [CreateLimitRange ''team-a'' lr, CreateResourceQuota ''team-a'' rq] \<and>
           Kind (lr_TypeMeta lr) = ''LimitRange'' \<and>
           Name (lr_ObjectMeta lr) = ''lr-auto-team-a'' \<and>
           Namespace (lr_ObjectMeta lr) = ''team-a'' \<and>
           Limits (lr_Spec lr) = [item] \<and>
           Type item = LimitTypeContainer \<and>
           Default item = [''memory'' \<mapsto> q] \<and>
           DefaultRequest item = [''memory'' \<mapsto> q] \<and>
           sint (amount q) = 134217728)"
  using team_a_not_admin
    limit_range_request_body [OF team_a_not_admin name_namespace_named,
      of "NewNamespaceController accepting_client" empty_world]
  unfolding calls_empty_world lr_auto_team_a append_Nil
  by (rule conjI)

text \<open>
  Claim C4: for every namespace name \<open>n\<close> that the handler does not take for an
  administrative one, the ResourceQuota request that the handler submits has the name
  \<open>rq-auto-n\<close>, is scoped to the namespace \<open>n\<close> and sets the hard limits of
  \<open>services.loadbalancers\<close> and \<open>services.nodeports\<close> to 0, and of nothing else.
\<close>

theorem resource_quota_request_body:
  assumes "fst (MatchString ''kube-.*'' n) \<noteq> True" and "Name (ns_ObjectMeta ns) = n"
  shows "\<exists>w' lr rq q1 q2.
           createCustomRules c (NamespacePtr (Some ns)) w = Inr w' \<and>
           calls (trace w') = calls (trace w) @ [CreateLimitRange n lr, CreateResourceQuota n rq] \<and>
           Kind (rq_TypeMeta rq) = ''ResourceQuota'' \<and>
           Name (rq_ObjectMeta rq) = ''rq-auto-'' @ n \<and>
           Namespace (rq_ObjectMeta rq) = n \<and>
           Hard (rq_Spec rq) ''services.loadbalancers'' = Some q1 \<and> sint (amount q1) = 0 \<and>
           Hard (rq_Spec rq) ''services.nodeports'' = Some q2 \<and> sint (amount q2) = 0 \<and>
           dom (Hard (rq_Spec rq)) = {''services.loadbalancers'', ''services.nodeports''}"
proof -
  from assms(1) have a: "\<not> sublist ''kube-'' n"
    by (simp add: fst_MatchString_kube)
  from run_nonadmin_calls [OF a assms(2), of c w] obtain w' where
    w': "createCustomRules c (NamespacePtr (Some ns)) w = Inr w'"
      "calls (trace w') = calls (trace w) @
             [CreateLimitRange n (limit_literal (''lr-auto-'' @ n) n),
              CreateResourceQuota n (quota_literal (''rq-auto-'' @ n) n)]"
    by blast
  show ?thesis
    apply (rule exI [of _ w'])
    apply (rule exI [of _ "limit_literal (''lr-auto-'' @ n) n"])
    apply (rule exI [of _ "quota_literal (''rq-auto-'' @ n) n"])
    apply (rule exI [of _ "NewQuantity 0 BinarySI"])
    apply (rule exI [of _ "NewQuantity 0 BinarySI"])
    using w' quota_body [of "''rq-auto-'' @ n" n] quota_dom [of "''rq-auto-'' @ n" n]
    by (simp only:)
qed

theorem resource_quota_request_body_witness:
  "fst (MatchString ''kube-.*'' ''team-a'') \<noteq> True \<and>
   (\<exists>w' lr rq q1 q2.
           createCustomRules (NewNamespaceController refusing_client)
             (NamespacePtr (Some (namespace_named ''team-a''))) empty_world = Inr w' \<and>
           calls (trace w') = [CreateLimitRange ''team-a'' lr, CreateResourceQuota ''team-a'' rq] \<and>
           Kind (rq_TypeMeta rq) = ''ResourceQuota'' \<and>
           Name (rq_ObjectMeta rq) = ''rq-auto-team-a'' \<and>
           Namespace (rq_ObjectMeta rq) = ''team-a'' \<and>
           Hard (rq_Spec rq) ''services.loadbalancers'' = Some q1 \<and> sint (amount q1) = 0 \<and>
           Hard (rq_Spec rq) ''services.nodeports'' = Some q2 \<and> sint (amount q2) = 0 \<and>
           dom (Hard (rq_Spec rq)) = {''services.loadbalancers'', ''services.nodeports''})"
  using team_a_not_admin
    resource_quota_request_body [OF team_a_not_admin name_namespace_named,
      of "NewNamespaceController refusing_client" empty_world]
  unfolding calls_empty_world rq_auto_team_a append_Nil
  by (rule conjI)

text \<open>
  Claim C5: the two submissions are independent. Whatever the LimitRange creation
  returns, an error \<open>e1\<close> or nil, the ResourceQuota creation is attempted after it,
  against the cluster as the first call left it; and whatever the ResourceQuota creation
  returns, the LimitRange creation has been attempted before it.
\<close>

theorem submissions_independent:
  assumes "fst (MatchString ''kube-.*'' n) \<noteq> True" and "Name (ns_ObjectMeta ns) = n"
    and "LimitRanges_Create (kclient c) n (limit_literal (''lr-auto-'' @ n) n) (cluster w) =
           ((r1, e1), c1)"
    and "ResourceQuotas_Create (kclient c) n (quota_literal (''rq-auto-'' @ n) n) c1 =
           ((r2, e2), c2)"
  shows "\<exists>w' l1 l2.
           createCustomRules c (NamespacePtr (Some ns)) w = Inr w' \<and>
           trace w' = trace w @
             [ApiCall (CreateLimitRange n (limit_literal (''lr-auto-'' @ n) n)), LogLine l1,
              ApiCall (CreateResourceQuota n (quota_literal (''rq-auto-'' @ n) n)), LogLine l2] \<and>
           cluster w' = c2"
proof -
  from assms(1) have a: "\<not> sublist ''kube-'' n"
    by (simp add: fst_MatchString_kube)
  show ?thesis
    unfolding run_nonadmin [OF a assms(2) assms(3) assms(4)] by simp
qed

theorem submissions_independent_witness:
  "fst (MatchString ''kube-.*'' ''team-a'') \<noteq> True \<and>
   LimitRanges_Create (kclient (NewNamespaceController refusing_client)) ''team-a''
     (limit_literal ''lr-auto-team-a'' ''team-a'') (cluster empty_world) =
     ((None, Some (GoError ''boom'')), ()) \<and>
   (\<exists>w' l1 l2.
      createCustomRules (NewNamespaceController refusing_client)
        (NamespacePtr (Some (namespace_named ''team-a''))) empty_world = Inr w' \<and>
      trace w' =
        [ApiCall (CreateLimitRange ''team-a'' (limit_literal ''lr-auto-team-a'' ''team-a'')),
         LogLine l1,
         ApiCall (CreateResourceQuota ''team-a'' (quota_literal ''rq-auto-team-a'' ''team-a'')),
         LogLine l2] \<and>
      cluster w' = ())"
  using team_a_not_admin refusing_lr [of "''team-a''" "limit_literal ''lr-auto-team-a'' ''team-a''"]
    submissions_independent [OF team_a_not_admin name_namespace_named refusing_lr refusing_rq]
  unfolding trace_empty_world lr_auto_team_a rq_auto_team_a append_Nil
  by (intro conjI)

text \<open>
  Claim C6, as stated, at an input where it fails. The claim: the outcome of each
  submission, success or failure, is logged with the namespace name. Both creations fail
  with the error \<open>boom\<close> for the namespace \<open>team-a\<close>: the two log lines carry the
  error text and not the name of the namespace.
\<close>

theorem failure_line_lacks_namespace_name:
  "createCustomRules (NewNamespaceController refusing_client)
     (NamespacePtr (Some (namespace_named ''team-a''))) empty_world =
   Inr \<lparr>cluster = (),
        trace =
          [ApiCall (CreateLimitRange ''team-a'' (limit_literal ''lr-auto-team-a'' ''team-a'')),
           LogLine ''Failed to create limitRange: boom'',
           ApiCall (CreateResourceQuota ''team-a'' (quota_literal ''rq-auto-team-a'' ''team-a'')),
           LogLine ''Failed to create ResourceQuotas: boom'']\<rparr> \<and>
   \<not> sublist ''team-a'' ''Failed to create limitRange: boom'' \<and>
   \<not> sublist ''team-a'' ''Failed to create ResourceQuotas: boom''"
proof -
  have a: "\<not> sublist ''kube-'' ''team-a''"
    by (simp add: sublist_Cons_right)
  have run: "createCustomRules (NewNamespaceController refusing_client)
     (NamespacePtr (Some (namespace_named ''team-a''))) empty_world =
   Inr \<lparr>cluster = (),
        trace =
          [ApiCall (CreateLimitRange ''team-a'' (limit_literal ''lr-auto-team-a'' ''team-a'')),
           LogLine ''Failed to create limitRange: boom'',
           ApiCall (CreateResourceQuota ''team-a'' (quota_literal ''rq-auto-team-a'' ''team-a'')),
           LogLine ''Failed to create ResourceQuotas: boom'']\<rparr>"
    using run_nonadmin [OF a name_namespace_named refusing_lr refusing_rq]
    by (simp add: trace_empty_world)
  have l1: "\<not> sublist ''team-a'' ''Failed to create limitRange: boom''"
    by (simp add: sublist_Cons_right)
  have l2: "\<not> sublist ''team-a'' ''Failed to create ResourceQuotas: boom''"
    by (simp add: sublist_Cons_right)
  from run l1 l2 show ?thesis by (intro conjI)
qed

text \<open>
  Claim C6, amended: for every namespace-add event and every outcome of the two creation
  calls, each submission's outcome is logged, a success with the namespace name, a failure
  with the underlying error text; the handler returns normally in all cases and hands no
  error to its caller. A failure line is its fixed prefix followed by the error text and
  nothing else, so the namespace name is in it only when the error text has it. For a
  namespace it takes for an administrative one the handler logs the skip line.
\<close>

theorem outcomes_logged:
  assumes "Name (ns_ObjectMeta ns) = n"
    and "LimitRanges_Create (kclient c) n (limit_literal (''lr-auto-'' @ n) n) (cluster w) =
           ((r1, e1), c1)"
    and "ResourceQuotas_Create (kclient c) n (quota_literal (''rq-auto-'' @ n) n) c1 =
           ((r2, e2), c2)"
  shows "\<exists>w'. createCustomRules c (NamespacePtr (Some ns)) w = Inr w' \<and>
           logs (trace w') = logs (trace w) @
             (if fst (MatchString ''kube-.*'' n) then [''Skip admin namespace: '' @ n]
              else [case e1 of
                      Some e \<Rightarrow> ''Failed to create limitRange: '' @ Error e
                    | None \<Rightarrow> ''limitRange for Namespace: '' @ n @ '' created'',
                    case e2 of
                      Some e \<Rightarrow> ''Failed to create ResourceQuotas: '' @ Error e
                    | None \<Rightarrow> ''ResourceQuotas for Namespace: '' @ n @ '' created''])"
proof (cases "sublist ''kube-'' n")
  case True
  with assms(1) have "sublist ''kube-'' (Name (ns_ObjectMeta ns))" by simp
  from run_admin [OF this, of c w] True assms(1) show ?thesis
    by (simp add: fst_MatchString_kube logs_append)
next
  case False
  from run_nonadmin [OF False assms] False show ?thesis
    by (simp add: fst_MatchString_kube logs_append)
qed

theorem outcomes_logged_witness:
  "Name (ns_ObjectMeta (namespace_named ''team-a'')) = ''team-a'' \<and>
   (\<exists>w'. createCustomRules (NewNamespaceController refusing_client)
            (NamespacePtr (Some (namespace_named ''team-a''))) empty_world = Inr w' \<and>
          logs (trace w') =
            [''Failed to create limitRange: boom'', ''Failed to create ResourceQuotas: boom''])"
proof -
  have f: "fst (MatchString ''kube-.*'' ''team-a'') = False"
    using team_a_not_admin by simp
  from outcomes_logged [OF name_namespace_named refusing_lr refusing_rq, of "''team-a''"]
  have "\<exists>w'. createCustomRules (NewNamespaceController refusing_client)
            (NamespacePtr (Some (namespace_named ''team-a''))) empty_world = Inr w' \<and>
          logs (trace w') =
            [''Failed to create limitRange: boom'', ''Failed to create ResourceQuotas: boom'']"
    unfolding f logs_empty_world by simp
  with name_namespace_named [of "''team-a''"] show ?thesis by (rule conjI)
qed

text \<open>
  Claim C7: the informer built by \<open>NewNamespaceController\<close> has a list and a watch
  function, a resync period of three minutes (180000000000 nanoseconds) and exactly one
  registered handler, which has an add function only: an add notification runs
  \<open>createCustomRules\<close>, an update or a delete notification changes nothing.
\<close>

theorem informer_configuration:
  "sint (resyncPeriod (namespaceInformer (NewNamespaceController kc))) = 180000000000 \<and>
   ListFunc (listerWatcher (namespaceInformer (NewNamespaceController kc))) = Some Namespaces_List \<and>
   WatchFunc (listerWatcher (namespaceInformer (NewNamespaceController kc))) = Some Namespaces_Watch \<and>
   handlers (namespaceInformer (NewNamespaceController kc)) =
     [\<lparr>AddFunc = Some createCustomRules_method, UpdateFunc = None, DeleteFunc = None\<rparr>] \<and>
   deliver (NewNamespaceController kc) (addNotification ob) w =
     createCustomRules (NewNamespaceController kc) ob w \<and>
   deliver (NewNamespaceController kc) (updateNotification oldObj newObj) w = Inr w \<and>
   deliver (NewNamespaceController kc) (deleteNotification ob) w = Inr w"
proof -
  have h: "handlers (namespaceInformer (NewNamespaceController kc)) =
     [\<lparr>AddFunc = Some createCustomRules_method, UpdateFunc = None, DeleteFunc = None\<rparr>]"
    by (simp add: NewNamespaceController_def NewSharedIndexInformer_def AddEventHandler_def)
  have p: "resyncPeriod (namespaceInformer (NewNamespaceController kc)) = 3 * Minute"
    by (simp add: NewNamespaceController_def NewSharedIndexInformer_def AddEventHandler_def)
  have lw: "listerWatcher (namespaceInformer (NewNamespaceController kc)) =
      \<lparr>ListFunc = Some Namespaces_List, WatchFunc = Some Namespaces_Watch\<rparr>"
    by (simp add: NewNamespaceController_def NewSharedIndexInformer_def AddEventHandler_def)
  have a: "deliver (NewNamespaceController kc) (addNotification ob) w =
     createCustomRules (NewNamespaceController kc) ob w"
    unfolding deliver_def h
    by (simp add: OnAdd_def call_method_def split: sum.splits)
  have u: "deliver (NewNamespaceController kc) (updateNotification oldObj newObj) w = Inr w"
    unfolding deliver_def h by (simp add: OnUpdate_def)
  have d: "deliver (NewNamespaceController kc) (deleteNotification ob) w = Inr w"
    unfolding deliver_def h by (simp add: OnDelete_def)
  show ?thesis
    unfolding p lw h a u d by (simp add: three_minutes)
qed

theorem informer_configuration_witness:
  "sint (resyncPeriod (namespaceInformer (NewNamespaceController accepting_client))) =
     180000000000 \<and>
   deliver (NewNamespaceController accepting_client)
     (deleteNotification (NamespacePtr (Some (namespace_named ''team-a'')))) empty_world =
     Inr empty_world \<and>
   deliver (NewNamespaceController accepting_client)
     (updateNotification (NamespacePtr (Some (namespace_named ''team-a'')))
        (NamespacePtr (Some (relabelled_namespace ''team-a'')))) empty_world =
     Inr empty_world"
  using informer_configuration [of accepting_client _ empty_world]
  by blast

text \<open>
  Claim C9: the handler starts with a type assertion that is not checked, so it panics
  for every argument that is not a namespace object, and it returns only when the
  argument is one. The nil interface and a value of another type fail the assertion; a
  nil pointer of the namespace type passes it and panics when its name is read.
\<close>

theorem handler_panics_unless_namespace:
  "((\<exists>p. createCustomRules c ob w = Inl p) \<longleftrightarrow> (\<forall>ns. ob \<noteq> NamespacePtr (Some ns))) \<and>
   createCustomRules c NilInterface w = Inl TypeAssertionPanic \<and>
   createCustomRules c (OtherObject t) w = Inl TypeAssertionPanic \<and>
   createCustomRules c (NamespacePtr None) w = Inl NilPointerDereference"
proof -
  have "(\<exists>p. createCustomRules c ob w = Inl p) \<longleftrightarrow> (\<forall>ns. ob \<noteq> NamespacePtr (Some ns))"
  proof (cases ob)
    case NilInterface
    then show ?thesis by (simp add: run_not_namespace)
  next
    case (NamespacePtr p)
    show ?thesis
    proof (cases p)
      case None
      with NamespacePtr show ?thesis by (simp add: run_not_namespace)
    next
      case (Some ns)
      from run_total [of c ns w] obtain w' where
        "createCustomRules c (NamespacePtr (Some ns)) w = Inr w'" by blast
      with NamespacePtr Some show ?thesis by simp
    qed
  next
    case (OtherObject t)
    then show ?thesis by (simp add: run_not_namespace)
  qed
  then show ?thesis by (simp add: run_not_namespace)
qed

theorem handler_panics_unless_namespace_witness:
  "(\<exists>p. createCustomRules (NewNamespaceController accepting_client)
          (OtherObject ''*v1.Pod'') empty_world = Inl p) \<and>
   (\<exists>w'. createCustomRules (NewNamespaceController accepting_client)
          (NamespacePtr (Some (namespace_named ''team-a''))) empty_world = Inr w')"
proof -
  note t = handler_panics_unless_namespace [of "NewNamespaceController accepting_client" _ empty_world]
  have 1: "\<exists>p. createCustomRules (NewNamespaceController accepting_client)
          (OtherObject ''*v1.Pod'') empty_world = Inl p"
    using t [of "OtherObject ''*v1.Pod''"] by simp
  have "\<not> (\<exists>p. createCustomRules (NewNamespaceController accepting_client)
          (NamespacePtr (Some (namespace_named ''team-a''))) empty_world = Inl p)"
    using t [of "NamespacePtr (Some (namespace_named ''team-a''))"] by simp
  then have 2: "\<exists>w'. createCustomRules (NewNamespaceController accepting_client)
          (NamespacePtr (Some (namespace_named ''team-a''))) empty_world = Inr w'"
    by (cases "createCustomRules (NewNamespaceController accepting_client)
          (NamespacePtr (Some (namespace_named ''team-a''))) empty_world") simp_all
  from 1 2 show ?thesis by (rule conjI)
qed

text \<open>
  Claim C10: what the handler does is a function of the name of the namespace alone. Two
  namespace objects with the same name, whatever their other fields, get the same
  classification and the same run from the same start; and from any two starts, with
  any two clientsets, the requests sent for the one and for the other are the same, with
  the same bodies.
\<close>

theorem handler_depends_on_name_only:
  assumes "Name (ns_ObjectMeta ns1) = Name (ns_ObjectMeta ns2)"
  shows "fst (MatchString ''kube-.*'' (Name (ns_ObjectMeta ns1))) =
           fst (MatchString ''kube-.*'' (Name (ns_ObjectMeta ns2))) \<and>
         createCustomRules c (NamespacePtr (Some ns1)) w =
           createCustomRules c (NamespacePtr (Some ns2)) w \<and>
         (\<exists>rs w1' w2'.
            createCustomRules c1 (NamespacePtr (Some ns1)) w1 = Inr w1' \<and>
            calls (trace w1') = calls (trace w1) @ rs \<and>
            createCustomRules c2 (NamespacePtr (Some ns2)) w2 = Inr w2' \<and>
            calls (trace w2') = calls (trace w2) @ rs)"
proof -
  have same: "createCustomRules c (NamespacePtr (Some ns1)) w =
           createCustomRules c (NamespacePtr (Some ns2)) w"
    using assms by (simp add: createCustomRules_def)
  have reqs: "\<exists>rs w1' w2'.
            createCustomRules c1 (NamespacePtr (Some ns1)) w1 = Inr w1' \<and>
            calls (trace w1') = calls (trace w1) @ rs \<and>
            createCustomRules c2 (NamespacePtr (Some ns2)) w2 = Inr w2' \<and>
            calls (trace w2') = calls (trace w2) @ rs"
  proof (cases "sublist ''kube-'' (Name (ns_ObjectMeta ns1))")
    case True
    with assms have t2: "sublist ''kube-'' (Name (ns_ObjectMeta ns2))" by simp
    show ?thesis
      apply (rule exI [of _ "[]"])
      unfolding run_admin [OF True] run_admin [OF t2]
      by (simp add: calls_append)
  next
    case False
    from run_nonadmin_calls [OF False refl, of c1 w1] obtain w1' where
      1: "createCustomRules c1 (NamespacePtr (Some ns1)) w1 = Inr w1'"
        "calls (trace w1') = calls (trace w1) @
           [CreateLimitRange (Name (ns_ObjectMeta ns1))
              (limit_literal (''lr-auto-'' @ Name (ns_ObjectMeta ns1)) (Name (ns_ObjectMeta ns1))),
            CreateResourceQuota (Name (ns_ObjectMeta ns1))
              (quota_literal (''rq-auto-'' @ Name (ns_ObjectMeta ns1)) (Name (ns_ObjectMeta ns1)))]"
      by blast
    from run_nonadmin_calls [OF False assms [symmetric], of c2 w2] obtain w2' where
      2: "createCustomRules c2 (NamespacePtr (Some ns2)) w2 = Inr w2'"
        "calls (trace w2') = calls (trace w2) @
           [CreateLimitRange (Name (ns_ObjectMeta ns1))
              (limit_literal (''lr-auto-'' @ Name (ns_ObjectMeta ns1)) (Name (ns_ObjectMeta ns1))),
            CreateResourceQuota (Name (ns_ObjectMeta ns1))
              (quota_literal (''rq-auto-'' @ Name (ns_ObjectMeta ns1)) (Name (ns_ObjectMeta ns1)))]"
      by blast
    from 1 2 show ?thesis by blast
  qed
  from assms same reqs show ?thesis by simp
qed

theorem handler_depends_on_name_only_witness:
  "Name (ns_ObjectMeta (namespace_named ''team-a'')) =
     Name (ns_ObjectMeta (relabelled_namespace ''team-a'')) \<and>
   namespace_named ''team-a'' \<noteq> relabelled_namespace ''team-a'' \<and>
   fst (MatchString ''kube-.*'' (Name (ns_ObjectMeta (namespace_named ''team-a'')))) =
     fst (MatchString ''kube-.*'' (Name (ns_ObjectMeta (relabelled_namespace ''team-a'')))) \<and>
   createCustomRules (NewNamespaceController accepting_client)
       (NamespacePtr (Some (namespace_named ''team-a''))) empty_world =
     createCustomRules (NewNamespaceController accepting_client)
       (NamespacePtr (Some (relabelled_namespace ''team-a''))) empty_world \<and>
   (\<exists>rs w1' w2'.
      createCustomRules (NewNamespaceController accepting_client)
        (NamespacePtr (Some (namespace_named ''team-a''))) empty_world = Inr w1' \<and>
      calls (trace w1') = calls (trace empty_world) @ rs \<and>
      createCustomRules (NewNamespaceController refusing_client)
        (NamespacePtr (Some (relabelled_namespace ''team-a''))) empty_world = Inr w2' \<and>
      calls (trace w2') = calls (trace empty_world) @ rs)"
  using same_name_team_a relabelled_differs [of "''team-a''"]
    handler_depends_on_name_only [OF same_name_team_a,
      of "NewNamespaceController accepting_client" empty_world
         "NewNamespaceController accepting_client" empty_world
         "NewNamespaceController refusing_client" empty_world]
  by (intro conjI) blast+

end
